theory Spec2Isabelle
  imports Main "HOL-Library.Word" "HOL-Library.Sublist"
begin

section \<open>Domain types (package products)\<close>

text \<open>
  Go's \<open>int64\<close> is a 64-bit word read as two's complement (\<open>sint\<close>). Go's \<open>int\<close> is
  modelled at 64 bits as well, the width on the amd64/arm64 targets the services are built for.
  Go strings are byte sequences: \<open>string\<close> (a \<open>char list\<close>).
\<close>

type_synonym int64 = "64 word"
type_synonym go_int = "64 word"

text \<open>
  \<open>time.Time\<close>: an instant (seconds since the Unix epoch and nanoseconds within the second)
  together with the offset of its location, in seconds east of UTC.
\<close>

record Time =
  unix_sec :: int
  nsec :: nat
  zone_offset :: int

definition UTC :: "Time \<Rightarrow> Time" where
  "UTC t = t\<lparr>zone_offset := 0\<rparr>"

text \<open>
  Errors. \<open>ErrNotFound\<close> and \<open>ErrInvalidName\<close> are the two sentinel values of the domain
  package; \<open>Wrapf ctx e\<close> is \<open>fmt.Errorf("ctx: %w", e)\<close>; \<open>External msg\<close> is any error
  made outside the repository's own code (database driver, broker client, standard library).
\<close>

datatype error =
    ErrNotFound
  | ErrInvalidName
  | Wrapf string error
  | External string

fun error_text :: "error \<Rightarrow> string" where
  "error_text ErrNotFound = ''product not found''"
| "error_text ErrInvalidName = ''product name is required''"
| "error_text (Wrapf ctx e) = ctx @ '': '' @ error_text e"
| "error_text (External msg) = msg"

fun errors_Is :: "error \<Rightarrow> error \<Rightarrow> bool" where
  "errors_Is (Wrapf ctx e) target = (Wrapf ctx e = target \<or> errors_Is e target)"
| "errors_Is e target = (e = target)"

definition EventsQueue :: string where "EventsQueue = ''products.events''"
definition EventCreated :: string where "EventCreated = ''product_created''"
definition EventDeleted :: string where "EventDeleted = ''product_deleted''"

record Product =
  ID :: int64
  Name :: string
  CreatedAt :: Time

record ProductEvent =
  EventType :: string
  ProductID :: int64
  Name :: string
  Timestamp :: Time

definition zero_Time :: Time where
  "zero_Time = \<lparr>unix_sec = -62135596800, nsec = 0, zone_offset = 0\<rparr>"

definition zero_Product :: Product where
  "zero_Product = \<lparr>ID = 0, Product.Name = [], CreatedAt = zero_Time\<rparr>"

section \<open>strings.TrimSpace\<close>

text \<open>
  \<open>strings.TrimSpace\<close> removes leading and trailing white space as defined by Unicode. On
  a byte string a white-space rune is one of the following UTF-8 encodings: the ASCII
  characters tab, line feed, vertical tab, form feed, carriage return and space, then U+0085,
  U+00A0, U+1680, U+2000 to U+200A, U+2028, U+2029, U+202F, U+205F and U+3000.
\<close>

definition space_encodings :: "string list" where
  "space_encodings =
     [[CHR 0x09], [CHR 0x0A], [CHR 0x0B], [CHR 0x0C], [CHR 0x0D], [CHR 0x20],
      [CHR 0xC2, CHR 0x85], [CHR 0xC2, CHR 0xA0],
      [CHR 0xE1, CHR 0x9A, CHR 0x80],
      [CHR 0xE2, CHR 0x80, CHR 0x80], [CHR 0xE2, CHR 0x80, CHR 0x81],
      [CHR 0xE2, CHR 0x80, CHR 0x82], [CHR 0xE2, CHR 0x80, CHR 0x83],
      [CHR 0xE2, CHR 0x80, CHR 0x84], [CHR 0xE2, CHR 0x80, CHR 0x85],
      [CHR 0xE2, CHR 0x80, CHR 0x86], [CHR 0xE2, CHR 0x80, CHR 0x87],
      [CHR 0xE2, CHR 0x80, CHR 0x88], [CHR 0xE2, CHR 0x80, CHR 0x89],
      [CHR 0xE2, CHR 0x80, CHR 0x8A],
      [CHR 0xE2, CHR 0x80, CHR 0xA8], [CHR 0xE2, CHR 0x80, CHR 0xA9],
      [CHR 0xE2, CHR 0x80, CHR 0xAF],
      [CHR 0xE2, CHR 0x81, CHR 0x9F],
      [CHR 0xE3, CHR 0x80, CHR 0x80]]"

text \<open>The number of bytes of the white-space rune that \<open>s\<close> starts with, 0 if there is none.\<close>

definition leading_space :: "string list \<Rightarrow> string \<Rightarrow> nat" where
  "leading_space encs s =
     (case find (\<lambda>w. prefix w s) encs of None \<Rightarrow> 0 | Some w \<Rightarrow> length w)"

function TrimLeft :: "string list \<Rightarrow> string \<Rightarrow> string" where
  "TrimLeft encs s =
     (if leading_space encs s = 0 then s else TrimLeft encs (drop (leading_space encs s) s))"
  by pat_completeness auto

lemma leading_space_le: "leading_space encs s \<le> length s"
  by (auto simp: leading_space_def find_Some_iff prefix_length_le split: option.splits)

termination TrimLeft
proof (relation "measure (\<lambda>(encs, s). length s)")
  show "wf (measure (\<lambda>(encs, s). length s))" by simp
next
  fix encs :: "string list" and s :: string
  assume "leading_space encs s \<noteq> 0"
  moreover have "leading_space encs s \<le> length s" by (rule leading_space_le)
  ultimately show "((encs, drop (leading_space encs s) s), (encs, s))
      \<in> measure (\<lambda>(encs, s). length s)"
    by simp
qed

text \<open>Trailing white space is leading white space of the reversed string.\<close>

definition TrimSpace :: "string \<Rightarrow> string" where
  "TrimSpace s =
     rev (TrimLeft (map rev space_encodings) (rev (TrimLeft space_encodings s)))"

section \<open>The service (package service)\<close>

datatype attr_value =
    AString string
  | AInt64 int64
  | ATime Time
  | AError error

datatype level = LevelInfo | LevelError

text \<open>One structured log line: level, message and the key-value attributes.\<close>

datatype log_entry = Log level string "(string \<times> attr_value) list"

definition defaultPageSize :: go_int where "defaultPageSize = 10"
definition maxPageSize :: go_int where "maxPageSize = 100"

text \<open>
  The interfaces \<open>Repository\<close> and \<open>Publisher\<close>: each method acts on the state \<open>'x\<close> of
  the world outside the service (database, broker) and returns its result with the new state.
\<close>

record 'x deps =
  repo_Create :: "string \<Rightarrow> 'x \<Rightarrow> (error + Product) \<times> 'x"
  repo_Delete :: "int64 \<Rightarrow> 'x \<Rightarrow> error option \<times> 'x"
  repo_List :: "go_int \<Rightarrow> go_int \<Rightarrow> 'x \<Rightarrow> (error + Product list) \<times> 'x"
  repo_Count :: "'x \<Rightarrow> (error + int64) \<times> 'x"
  pub_Publish :: "ProductEvent \<Rightarrow> 'x \<Rightarrow> error option \<times> 'x"

text \<open>
  What a call of the service can change: the outside state, the logger's output, the two
  Prometheus counters, and \<open>published\<close>, the sequence of events handed to
  \<open>Publisher.Publish\<close> so far (one entry per invocation, in call order).
\<close>

record 'x world =
  ext :: 'x
  logs :: "log_entry list"
  created :: nat
  deleted :: nat
  published :: "ProductEvent list"

text \<open>
  \<open>CreateProduct\<close>; \<open>now\<close> is the value \<open>time.Now()\<close> returns when the event is built.
\<close>

definition CreateProduct ::
  "'x deps \<Rightarrow> Time \<Rightarrow> string \<Rightarrow> 'x world \<Rightarrow> (error + Product) \<times> 'x world" where
  "CreateProduct d now name0 w =
     (let name = TrimSpace name0 in
      if name = [] then (Inl ErrInvalidName, w)
      else
        (case repo_Create d name (ext w) of
           (Inl err, x1) \<Rightarrow> (Inl (Wrapf ''repo create'' err), w\<lparr>ext := x1\<rparr>)
         | (Inr product, x1) \<Rightarrow>
             (let ev = \<lparr>EventType = EventCreated, ProductID = ID product,
                        Name = Product.Name product, Timestamp = UTC now\<rparr>;
                  (perr, x2) = pub_Publish d ev x1;
                  w1 = w\<lparr>ext := x2, published := published w @ [ev]\<rparr>;
                  w2 = (case perr of
                          None \<Rightarrow> w1
                        | Some err \<Rightarrow>
                            w1\<lparr>logs := logs w1 @
                              [Log LevelError ''publish product_created event failed''
                                 [(''product_id'', AInt64 (ID product)),
                                  (''error'', AError err)]]\<rparr>)
              in (Inr product, w2\<lparr>created := created w2 + 1\<rparr>))))"

definition DeleteProduct ::
  "'x deps \<Rightarrow> Time \<Rightarrow> int64 \<Rightarrow> 'x world \<Rightarrow> error option \<times> 'x world" where
  "DeleteProduct d now id0 w =
     (case repo_Delete d id0 (ext w) of
        (Some err, x1) \<Rightarrow> (Some (Wrapf ''repo delete'' err), w\<lparr>ext := x1\<rparr>)
      | (None, x1) \<Rightarrow>
          (let ev = \<lparr>EventType = EventDeleted, ProductID = id0,
                     Name = [], Timestamp = UTC now\<rparr>;
               (perr, x2) = pub_Publish d ev x1;
               w1 = w\<lparr>ext := x2, published := published w @ [ev]\<rparr>;
               w2 = (case perr of
                       None \<Rightarrow> w1
                     | Some err \<Rightarrow>
                         w1\<lparr>logs := logs w1 @
                           [Log LevelError ''publish product_deleted event failed''
                              [(''product_id'', AInt64 id0),
                               (''error'', AError err)]]\<rparr>)
           in (None, w2\<lparr>deleted := deleted w2 + 1\<rparr>)))"

text \<open>The page and the limit after the three guards of \<open>ListProducts\<close>.\<close>

definition effective_page :: "go_int \<Rightarrow> go_int" where
  "effective_page page = (if sint page < 1 then 1 else page)"

definition effective_limit :: "go_int \<Rightarrow> go_int" where
  "effective_limit limit =
     (let l1 = (if sint limit < 1 then defaultPageSize else limit)
      in if sint l1 > sint maxPageSize then maxPageSize else l1)"

definition ListProducts ::
  "'x deps \<Rightarrow> go_int \<Rightarrow> go_int \<Rightarrow> 'x world \<Rightarrow> (error + Product list \<times> int64) \<times> 'x world" where
  "ListProducts d page0 limit0 w =
     (let page = effective_page page0;
          limit = effective_limit limit0;
          offset = (page - 1) * limit
      in case repo_List d limit offset (ext w) of
           (Inl err, x1) \<Rightarrow> (Inl (Wrapf ''repo list'' err), w\<lparr>ext := x1\<rparr>)
         | (Inr items, x1) \<Rightarrow>
             (case repo_Count d x1 of
                (Inl err, x2) \<Rightarrow> (Inl (Wrapf ''repo count'' err), w\<lparr>ext := x2\<rparr>)
              | (Inr n, x2) \<Rightarrow> (Inr (items, n), w\<lparr>ext := x2\<rparr>)))"

text \<open>
  The requests the HTTP layer turns into service calls, and the service handling a sequence
  of them: every event the producer side ever publishes is built by one of these calls.
\<close>

datatype request =
    Create_Request Time string
  | Delete_Request Time int64
  | List_Request go_int go_int

fun handle :: "'x deps \<Rightarrow> request \<Rightarrow> 'x world \<Rightarrow> 'x world" where
  "handle d (Create_Request now name0) w = snd (CreateProduct d now name0 w)"
| "handle d (Delete_Request now id0) w = snd (DeleteProduct d now id0 w)"
| "handle d (List_Request page0 limit0) w = snd (ListProducts d page0 limit0 w)"

fun handle_all :: "'x deps \<Rightarrow> request list \<Rightarrow> 'x world \<Rightarrow> 'x world" where
  "handle_all d [] w = w"
| "handle_all d (r # rs) w = handle_all d rs (handle d r w)"

section \<open>The standard library as the event path uses it\<close>

subsection \<open>Decimal numbers\<close>

definition digit_char :: "nat \<Rightarrow> char" where
  "digit_char n = ''0123456789abcdef'' ! n"

function decimal :: "nat \<Rightarrow> string" where
  "decimal n = (if n < 10 then [digit_char n] else decimal (n div 10) @ [digit_char (n mod 10)])"
  by pat_completeness auto
termination
  by (relation "measure id") auto

text \<open>\<open>appendInt\<close> of package time: at least \<open>width\<close> digits, a minus sign in front.\<close>

definition appendInt :: "int \<Rightarrow> nat \<Rightarrow> string" where
  "appendInt x width =
     (let ds = decimal (nat \<bar>x\<bar>)
      in (if x < 0 then ''-'' else []) @ replicate (width - length ds) CHR ''0'' @ ds)"

text \<open>\<open>strconv.FormatInt(v, 10)\<close> on an \<open>int64\<close>.\<close>

definition format_int64 :: "int64 \<Rightarrow> string" where
  "format_int64 v = appendInt (sint v) 1"

text \<open>Go's integer division truncates towards zero.\<close>

definition quo :: "int \<Rightarrow> int \<Rightarrow> int" where
  "quo a b = sgn a * sgn b * (\<bar>a\<bar> div \<bar>b\<bar>)"

subsection \<open>Calendar and RFC 3339 (package time)\<close>

text \<open>
  The proleptic Gregorian date of a day number (days since 1970-01-01) and back. Isabelle's
  \<open>div\<close> and \<open>mod\<close> on \<open>int\<close> round down, which is what the era arithmetic needs.
\<close>

definition civil_from_days :: "int \<Rightarrow> int \<times> int \<times> int" where
  "civil_from_days z0 =
     (let z = z0 + 719468;
          era = z div 146097;
          doe = z mod 146097;
          yoe = (doe - doe div 1460 + doe div 36524 - doe div 146096) div 365;
          doy = doe - (365 * yoe + yoe div 4 - yoe div 100);
          mp = (5 * doy + 2) div 153;
          d = doy - (153 * mp + 2) div 5 + 1;
          m = (if mp < 10 then mp + 3 else mp - 9);
          y = yoe + era * 400
      in (if m \<le> 2 then y + 1 else y, m, d))"

definition days_from_civil :: "int \<Rightarrow> int \<Rightarrow> int \<Rightarrow> int" where
  "days_from_civil y0 m d =
     (let y = (if m \<le> 2 then y0 - 1 else y0);
          era = y div 400;
          yoe = y mod 400;
          doy = (153 * (if m > 2 then m - 3 else m + 9) + 2) div 5 + d - 1;
          doe = yoe * 365 + yoe div 4 - yoe div 100 + doy
      in era * 146097 + doe - 719468)"

text \<open>The wall-clock seconds of a time in its own location, and its year there.\<close>

definition local_sec :: "Time \<Rightarrow> int" where
  "local_sec t = unix_sec t + zone_offset t"

definition Year :: "Time \<Rightarrow> int" where
  "Year t = fst (civil_from_days (local_sec t div 86400))"

text \<open>
  The fractional second of the layout \<open>.999999999\<close>: nothing for 0, otherwise the nine
  digits without their trailing zeros.
\<close>

definition appendNano :: "nat \<Rightarrow> string" where
  "appendNano ns =
     (if ns = 0 then []
      else CHR ''.'' # rev (dropWhile (\<lambda>c. c = CHR ''0'') (rev (appendInt (int ns) 9))))"

text \<open>\<open>Time.appendFormatRFC3339\<close> with nanoseconds.\<close>

definition appendFormatRFC3339 :: "Time \<Rightarrow> string" where
  "appendFormatRFC3339 t =
     (let abs = local_sec t;
          (year, month, day) = civil_from_days (abs div 86400);
          sod = abs mod 86400;
          zone = quo (zone_offset t) 60
      in appendInt year 4 @ ''-'' @ appendInt month 2 @ ''-'' @ appendInt day 2 @ ''T'' @
         appendInt (sod div 3600) 2 @ '':'' @ appendInt (sod mod 3600 div 60) 2 @ '':'' @
         appendInt (sod mod 60) 2 @ appendNano (nsec t) @
         (if zone_offset t = 0 then ''Z''
          else (if zone < 0 then ''-'' else ''+'') @ appendInt (\<bar>zone\<bar> div 60) 2 @ '':'' @
               appendInt (\<bar>zone\<bar> mod 60) 2))"

text \<open>
  \<open>Time.MarshalJSON\<close>: the quoted RFC 3339 text, or an error when the year does not have
  exactly four digits or the zone offset is 24 hours or more. The result here is the text
  between the quotes.
\<close>

definition Time_MarshalJSON :: "Time \<Rightarrow> error + string" where
  "Time_MarshalJSON t =
     (if Year t < 0 \<or> 9999 < Year t
      then Inl (External ''Time.MarshalJSON: year outside of range [0,9999]'')
      else if zone_offset t \<noteq> 0 \<and> 24 \<le> \<bar>quo (zone_offset t) 60\<bar> div 60
      then Inl (External ''Time.MarshalJSON: timezone hour outside of range [0,23]'')
      else Inr (appendFormatRFC3339 t))"

subsection \<open>UTF-8 (package unicode/utf8)\<close>

definition byte_in :: "nat \<Rightarrow> nat \<Rightarrow> char \<Rightarrow> bool" where
  "byte_in lo hi c \<longleftrightarrow> lo \<le> (of_char c :: nat) \<and> (of_char c :: nat) \<le> hi"

text \<open>
  The width of the UTF-8 encoding that \<open>s\<close> starts with: 1 to 4, or 0 where
  \<open>utf8.DecodeRune\<close> answers \<open>RuneError\<close> (no input, a stray continuation byte, an overlong
  or truncated form, a surrogate, a value above U+10FFFF).
\<close>

definition utf8_size :: "string \<Rightarrow> nat" where
  "utf8_size s =
     (case s of
        [] \<Rightarrow> 0
      | b0 # r \<Rightarrow>
          (let n = (of_char b0 :: nat) in
           if n < 0x80 then 1
           else if 0xC2 \<le> n \<and> n \<le> 0xDF then
             (case r of b1 # _ \<Rightarrow> if byte_in 0x80 0xBF b1 then 2 else 0 | _ \<Rightarrow> 0)
           else if 0xE0 \<le> n \<and> n \<le> 0xEF then
             (case r of
                b1 # b2 # _ \<Rightarrow>
                  if byte_in (if n = 0xE0 then 0xA0 else 0x80) (if n = 0xED then 0x9F else 0xBF) b1
                     \<and> byte_in 0x80 0xBF b2
                  then 3 else 0
              | _ \<Rightarrow> 0)
           else if 0xF0 \<le> n \<and> n \<le> 0xF4 then
             (case r of
                b1 # b2 # b3 # _ \<Rightarrow>
                  if byte_in (if n = 0xF0 then 0x90 else 0x80) (if n = 0xF4 then 0x8F else 0xBF) b1
                     \<and> byte_in 0x80 0xBF b2 \<and> byte_in 0x80 0xBF b3
                  then 4 else 0
              | _ \<Rightarrow> 0)
           else 0))"

text \<open>\<open>utf8.AppendRune\<close>: the encoding of a code point (surrogates and values out of range
  give U+FFFD).\<close>

definition replacement_char :: string where
  "replacement_char = [CHR 0xEF, CHR 0xBF, CHR 0xBD]"

definition encode_rune :: "nat \<Rightarrow> string" where
  "encode_rune r =
     (if r < 0x80 then [char_of r]
      else if r < 0x800 then [char_of (0xC0 + r div 64), char_of (0x80 + r mod 64)]
      else if (0xD800 \<le> r \<and> r \<le> 0xDFFF) \<or> 0x10FFFF < r then replacement_char
      else if r < 0x10000 then
        [char_of (0xE0 + r div 4096), char_of (0x80 + r div 64 mod 64), char_of (0x80 + r mod 64)]
      else
        [char_of (0xF0 + r div 262144), char_of (0x80 + r div 4096 mod 64),
         char_of (0x80 + r div 64 mod 64), char_of (0x80 + r mod 64)])"

subsection \<open>JSON values and their text (package encoding/json)\<close>

text \<open>
  A JSON value as it stands in a text: a number is its literal, a string (also an object key)
  is the literal between its quotes, escapes unresolved.
\<close>

datatype json =
    JNull
  | JBool bool
  | JNumber string
  | JString string
  | JArray "json list"
  | JObject "(string \<times> json) list"

definition quoted :: "string \<Rightarrow> string" where
  "quoted s = CHR 0x22 # s @ [CHR 0x22]"

fun join :: "string \<Rightarrow> string list \<Rightarrow> string" where
  "join sep [] = []"
| "join sep [x] = x"
| "join sep (x # y # ys) = x @ sep @ join sep (y # ys)"

text \<open>The compact text of a value, as \<open>json.Marshal\<close> writes it.\<close>

fun render :: "json \<Rightarrow> string" where
  "render JNull = ''null''"
| "render (JBool b) = (if b then ''true'' else ''false'')"
| "render (JNumber lit) = lit"
| "render (JString raw) = quoted raw"
| "render (JArray vs) = ''['' @ join '','' (map render vs) @ '']''"
| "render (JObject ms) =
     ''{'' @ join '','' (map (\<lambda>(k, v). quoted k @ '':'' @ render v) ms) @ ''}''"

text \<open>
  The encoder's string escaping (\<open>appendString\<close> with HTML escaping, which \<open>json.Marshal\<close>
  switches on, as of Go 1.22): one ASCII byte.
\<close>

definition escape_ascii :: "char \<Rightarrow> string" where
  "escape_ascii c =
     (let n = (of_char c :: nat) in
      if c = CHR 0x22 \<or> c = CHR 0x5C then [CHR 0x5C, c]
      else if n = 0x08 then [CHR 0x5C, CHR ''b'']
      else if n = 0x0C then [CHR 0x5C, CHR ''f'']
      else if n = 0x0A then [CHR 0x5C, CHR ''n'']
      else if n = 0x0D then [CHR 0x5C, CHR ''r'']
      else if n = 0x09 then [CHR 0x5C, CHR ''t'']
      else if n < 0x20 \<or> c = CHR ''<'' \<or> c = CHR ''>'' \<or> c = CHR ''&''
      then [CHR 0x5C, CHR ''u'', CHR ''0'', CHR ''0'', digit_char (n div 16), digit_char (n mod 16)]
      else [c])"

text \<open>
  The whole string: invalid UTF-8 becomes the escape of U+FFFD, U+2028 and U+2029 are
  escaped, every other encoded rune is copied.
\<close>

function escape :: "string \<Rightarrow> string" where
  "escape [] = []"
| "escape (c # cs) =
     (if (of_char c :: nat) < 0x80 then escape_ascii c @ escape cs
      else
        (let n = utf8_size (c # cs) in
         if n = 0 then CHR 0x5C # ''ufffd'' @ escape cs
         else if take n (c # cs) = [CHR 0xE2, CHR 0x80, CHR 0xA8]
         then CHR 0x5C # ''u2028'' @ escape (drop (n - 1) cs)
         else if take n (c # cs) = [CHR 0xE2, CHR 0x80, CHR 0xA9]
         then CHR 0x5C # ''u2029'' @ escape (drop (n - 1) cs)
         else take n (c # cs) @ escape (drop (n - 1) cs)))"
  by pat_completeness auto
termination
  by (relation "measure length") auto

text \<open>
  The members \<open>json.Marshal\<close> writes for a \<open>ProductEvent\<close>, from its struct tags:
  \<open>event_type\<close>, \<open>product_id\<close>, \<open>name\<close> (left out when empty: \<open>omitempty\<close>) and
  \<open>timestamp\<close>, which is the only field whose encoding can fail.
\<close>

definition ProductEvent_members :: "ProductEvent \<Rightarrow> error + (string \<times> json) list" where
  "ProductEvent_members ev =
     (case Time_MarshalJSON (Timestamp ev) of
        Inl e \<Rightarrow>
          Inl (External (''json: error calling MarshalJSON for type time.Time: '' @ error_text e))
      | Inr ts \<Rightarrow>
          Inr ([(''event_type'', JString (escape (EventType ev))),
                (''product_id'', JNumber (format_int64 (ProductID ev)))] @
               (if Name ev = [] then [] else [(''name'', JString (escape (Name ev)))]) @
               [(''timestamp'', JString ts)]))"

definition json_Marshal :: "ProductEvent \<Rightarrow> error + string" where
  "json_Marshal ev =
     (case ProductEvent_members ev of
        Inl e \<Rightarrow> Inl e
      | Inr ms \<Rightarrow> Inr (render (JObject ms)))"

subsection \<open>Reading JSON: the scanner\<close>

datatype token =
    TLBrace | TRBrace | TLBracket | TRBracket | TComma | TColon
  | TStr string | TNum string | TTrue | TFalse | TNull

definition is_digit :: "char \<Rightarrow> bool" where
  "is_digit c \<longleftrightarrow> byte_in 0x30 0x39 c"

definition is_hex :: "char \<Rightarrow> bool" where
  "is_hex c \<longleftrightarrow> byte_in 0x30 0x39 c \<or> byte_in 0x61 0x66 c \<or> byte_in 0x41 0x46 c"

definition is_space :: "char \<Rightarrow> bool" where
  "is_space c \<longleftrightarrow> c = CHR 0x20 \<or> c = CHR 0x09 \<or> c = CHR 0x0D \<or> c = CHR 0x0A"

text \<open>
  Inside a string literal, as the scanner's states \<open>stateInString\<close>, \<open>stateInStringEsc\<close>
  and \<open>stateInStringEscU...\<close> go: the text after the opening quote gives the literal's
  content and what follows the closing quote. Bytes below 0x20 and unknown escapes are errors.
\<close>

datatype string_state = InString | InStringEsc | InStringEscU nat

fun scan_string :: "string_state \<Rightarrow> string \<Rightarrow> string \<Rightarrow> (string \<times> string) option" where
  "scan_string st acc [] = None"
| "scan_string InString acc (c # cs) =
     (if c = CHR 0x22 then Some (rev acc, cs)
      else if c = CHR 0x5C then scan_string InStringEsc (c # acc) cs
      else if (of_char c :: nat) < 0x20 then None
      else scan_string InString (c # acc) cs)"
| "scan_string InStringEsc acc (c # cs) =
     (if c \<in> set [CHR ''b'', CHR ''f'', CHR ''n'', CHR ''r'', CHR ''t'', CHR 0x5C, CHR ''/'', CHR 0x22]
      then scan_string InString (c # acc) cs
      else if c = CHR ''u'' then scan_string (InStringEscU 4) (c # acc) cs
      else None)"
| "scan_string (InStringEscU k) acc (c # cs) =
     (if is_hex c
      then scan_string (if k \<le> 1 then InString else InStringEscU (k - 1)) (c # acc) cs
      else None)"

text \<open>
  A number literal at the start of the text: an optional minus, \<open>0\<close> or a digit from 1 to 9
  with more digits, an optional fraction, an optional exponent.
\<close>

definition scan_exp :: "string \<Rightarrow> string \<Rightarrow> (string \<times> string) option" where
  "scan_exp acc s =
     (case s of
        [] \<Rightarrow> Some (acc, s)
      | c # r \<Rightarrow>
          if c = CHR ''e'' \<or> c = CHR ''E'' then
            (let sg = (case r of [] \<Rightarrow> [] | x # _ \<Rightarrow> if x = CHR ''+'' \<or> x = CHR ''-'' then [x] else []);
                 r1 = drop (length sg) r;
                 ds = takeWhile is_digit r1
             in if ds = [] then None else Some (acc @ [c] @ sg @ ds, dropWhile is_digit r1))
          else Some (acc, s))"

definition scan_frac :: "string \<Rightarrow> string \<Rightarrow> (string \<times> string) option" where
  "scan_frac acc s =
     (case s of
        [] \<Rightarrow> Some (acc, s)
      | c # r \<Rightarrow>
          if c = CHR ''.'' then
            (let ds = takeWhile is_digit r
             in if ds = [] then None else scan_exp (acc @ [c] @ ds) (dropWhile is_digit r))
          else scan_exp acc s)"

definition scan_number :: "string \<Rightarrow> (string \<times> string) option" where
  "scan_number s =
     (let sg = (case s of [] \<Rightarrow> [] | x # _ \<Rightarrow> if x = CHR ''-'' then [x] else []);
          s1 = drop (length sg) s
      in case s1 of
           [] \<Rightarrow> None
         | c # r \<Rightarrow>
             if c = CHR ''0'' then scan_frac (sg @ [c]) r
             else if is_digit c
             then scan_frac (sg @ c # takeWhile is_digit r) (dropWhile is_digit r)
             else None)"

lemma scan_string_shorter:
  "scan_string st acc s = Some (raw, rest) \<Longrightarrow> length rest < length s"
  by (induction st acc s rule: scan_string.induct) (auto split: if_splits)

lemma dropWhile_shorter:
  "length (dropWhile P xs) \<le> length xs"
  "length (dropWhile P xs) \<le> Suc (length xs)"
  "length (dropWhile P xs) \<le> Suc (Suc (length xs))"
  "length (dropWhile P xs) < Suc (length xs)"
  "length (dropWhile P xs) < Suc (Suc (length xs))"
  using length_dropWhile_le [of P xs] by simp_all

lemma scan_exp_shorter: "scan_exp acc s = Some (lit, rest) \<Longrightarrow> length rest \<le> length s"
  by (auto simp: scan_exp_def Let_def dropWhile_shorter split: list.splits if_splits)

lemma scan_frac_shorter: "scan_frac acc s = Some (lit, rest) \<Longrightarrow> length rest \<le> length s"
proof (cases s)
  case Nil
  assume "scan_frac acc s = Some (lit, rest)"
  with Nil show ?thesis by (simp add: scan_frac_def)
next
  case (Cons c r)
  assume a: "scan_frac acc s = Some (lit, rest)"
  show ?thesis
  proof (cases "c = CHR ''.''")
    case True
    with a Cons have "scan_exp (acc @ [c] @ takeWhile is_digit r) (dropWhile is_digit r) =
        Some (lit, rest)"
      by (simp add: scan_frac_def Let_def split: if_splits)
    then have "length rest \<le> length (dropWhile is_digit r)" by (rule scan_exp_shorter)
    with Cons show ?thesis using length_dropWhile_le [of is_digit r] by simp
  next
    case False
    with a Cons have "scan_exp acc s = Some (lit, rest)" by (simp add: scan_frac_def)
    then show ?thesis by (rule scan_exp_shorter)
  qed
qed

lemma scan_number_shorter:
  assumes "scan_number s = Some (lit, rest)"
  shows "length rest < length s"
proof -
  define sg where "sg = (case s of [] \<Rightarrow> [] | x # _ \<Rightarrow> if x = CHR ''-'' then [x] else [])"
  obtain c r where s1: "drop (length sg) s = c # r"
    using assms by (cases "drop (length sg) s") (auto simp: scan_number_def sg_def Let_def)
  have len: "length r < length s"
  proof -
    have "length (drop (length sg) s) \<le> length s" by simp
    with s1 show ?thesis by simp
  qed
  from assms s1 consider
      "scan_frac (sg @ [c]) r = Some (lit, rest)"
    | "scan_frac (sg @ c # takeWhile is_digit r) (dropWhile is_digit r) = Some (lit, rest)"
    by (auto simp: scan_number_def sg_def [symmetric] Let_def split: if_splits)
  then show ?thesis
  proof cases
    case 1
    then have "length rest \<le> length r" by (rule scan_frac_shorter)
    with len show ?thesis by simp
  next
    case 2
    then have "length rest \<le> length (dropWhile is_digit r)" by (rule scan_frac_shorter)
    with len show ?thesis using length_dropWhile_le [of is_digit r] by simp
  qed
qed

text \<open>The tokens of a text, or \<open>None\<close> where the scanner meets a byte that starts none.\<close>

function tokens :: "string \<Rightarrow> token list option" where
  "tokens [] = Some []"
| "tokens (c # cs) =
     (if is_space c then tokens cs
      else if c = CHR ''{'' then map_option ((#) TLBrace) (tokens cs)
      else if c = CHR ''}'' then map_option ((#) TRBrace) (tokens cs)
      else if c = CHR ''['' then map_option ((#) TLBracket) (tokens cs)
      else if c = CHR '']'' then map_option ((#) TRBracket) (tokens cs)
      else if c = CHR '','' then map_option ((#) TComma) (tokens cs)
      else if c = CHR '':'' then map_option ((#) TColon) (tokens cs)
      else if c = CHR 0x22 then
        (case scan_string InString [] cs of
           None \<Rightarrow> None
         | Some (raw, rest) \<Rightarrow> map_option ((#) (TStr raw)) (tokens rest))
      else if c = CHR ''-'' \<or> is_digit c then
        (case scan_number (c # cs) of
           None \<Rightarrow> None
         | Some (lit, rest) \<Rightarrow> map_option ((#) (TNum lit)) (tokens rest))
      else if take 4 (c # cs) = ''true'' then map_option ((#) TTrue) (tokens (drop 3 cs))
      else if take 5 (c # cs) = ''false'' then map_option ((#) TFalse) (tokens (drop 4 cs))
      else if take 4 (c # cs) = ''null'' then map_option ((#) TNull) (tokens (drop 3 cs))
      else None)"
  by pat_completeness auto
termination
proof (relation "measure length", goal_cases)
  case (9 c cs x2 raw rest)
  then show ?case using scan_string_shorter [of InString "[]" cs raw rest] by simp
next
  case (10 c cs x2 lit rest)
  then show ?case using scan_number_shorter [of "c # cs" lit rest] by simp
qed auto

subsection \<open>Reading JSON: the structure\<close>

text \<open>
  The scanner's stack of open arrays and objects (\<open>parseState\<close>), here holding what each has
  collected so far; an object that has read a key and awaits the value is \<open>PMember\<close>.
\<close>

datatype frame =
    PArray "json list"
  | PObject "(string \<times> json) list"
  | PMember "(string \<times> json) list" string

datatype expect = EValue | EValueOrClose | EKeyOrClose | EKey | EColon | ECommaOrClose | EEnd

type_synonym parser = "expect \<times> frame list \<times> json option"

definition maxNestingDepth :: nat where
  "maxNestingDepth = 10000"

text \<open>A value is complete: it is the whole text, or it goes into the open array or member.\<close>

fun complete :: "json \<Rightarrow> frame list \<Rightarrow> parser option" where
  "complete v [] = Some (EEnd, [], Some v)"
| "complete v (PArray vs # st) = Some (ECommaOrClose, PArray (vs @ [v]) # st, None)"
| "complete v (PMember ms k # st) = Some (ECommaOrClose, PObject (ms @ [(k, v)]) # st, None)"
| "complete v (PObject ms # st) = None"

definition push :: "expect \<Rightarrow> frame \<Rightarrow> frame list \<Rightarrow> parser option" where
  "push e f st = (if length (f # st) \<le> maxNestingDepth then Some (e, f # st, None) else None)"

definition begin_value :: "token \<Rightarrow> frame list \<Rightarrow> parser option" where
  "begin_value t st =
     (case t of
        TStr raw \<Rightarrow> complete (JString raw) st
      | TNum lit \<Rightarrow> complete (JNumber lit) st
      | TTrue \<Rightarrow> complete (JBool True) st
      | TFalse \<Rightarrow> complete (JBool False) st
      | TNull \<Rightarrow> complete JNull st
      | TLBracket \<Rightarrow> push EValueOrClose (PArray []) st
      | TLBrace \<Rightarrow> push EKeyOrClose (PObject []) st
      | _ \<Rightarrow> None)"

definition close_array :: "frame list \<Rightarrow> parser option" where
  "close_array st = (case st of PArray vs # st1 \<Rightarrow> complete (JArray vs) st1 | _ \<Rightarrow> None)"

definition close_object :: "frame list \<Rightarrow> parser option" where
  "close_object st = (case st of PObject ms # st1 \<Rightarrow> complete (JObject ms) st1 | _ \<Rightarrow> None)"

definition begin_key :: "token \<Rightarrow> frame list \<Rightarrow> parser option" where
  "begin_key t st =
     (case (t, st) of
        (TStr raw, PObject ms # st1) \<Rightarrow> Some (EColon, PMember ms raw # st1, None)
      | _ \<Rightarrow> None)"

fun parse_step :: "parser \<Rightarrow> token \<Rightarrow> parser option" where
  "parse_step (EValue, st, r) t = begin_value t st"
| "parse_step (EValueOrClose, st, r) t =
     (if t = TRBracket then close_array st else begin_value t st)"
| "parse_step (EKeyOrClose, st, r) t =
     (if t = TRBrace then close_object st else begin_key t st)"
| "parse_step (EKey, st, r) t = begin_key t st"
| "parse_step (EColon, st, r) t = (if t = TColon then Some (EValue, st, None) else None)"
| "parse_step (ECommaOrClose, st, r) t =
     (if t = TComma then
        (case st of
           PArray vs # st1 \<Rightarrow> Some (EValue, st, None)
         | PObject ms # st1 \<Rightarrow> Some (EKey, st, None)
         | _ \<Rightarrow> None)
      else if t = TRBracket then close_array st
      else if t = TRBrace then close_object st
      else None)"
| "parse_step (EEnd, st, r) t = None"

fun parse_tokens :: "parser \<Rightarrow> token list \<Rightarrow> parser option" where
  "parse_tokens p [] = Some p"
| "parse_tokens p (t # ts) =
     (case parse_step p t of None \<Rightarrow> None | Some p1 \<Rightarrow> parse_tokens p1 ts)"

text \<open>
  The value of a text: \<open>None\<close> is the \<open>SyntaxError\<close> of \<open>checkValid\<close>. The text must be
  exactly one value, white space around it.
\<close>

definition json_parse :: "string \<Rightarrow> json option" where
  "json_parse s =
     (case tokens s of
        None \<Rightarrow> None
      | Some ts \<Rightarrow>
          (case parse_tokens (EValue, [], None) ts of
             Some (EEnd, [], Some v) \<Rightarrow> Some v
           | _ \<Rightarrow> None))"

subsection \<open>Reading JSON: string literals, numbers, times\<close>

definition hex_val :: "char \<Rightarrow> nat" where
  "hex_val c =
     (let n = (of_char c :: nat) in
      if byte_in 0x30 0x39 c then n - 0x30
      else if byte_in 0x61 0x66 c then n - 0x57
      else n - 0x37)"

definition getu4 :: "string \<Rightarrow> nat" where
  "getu4 ds = foldl (\<lambda>a c. 16 * a + hex_val c) 0 (take 4 ds)"

definition unescape_char :: "char \<Rightarrow> char" where
  "unescape_char e =
     (if e = CHR ''b'' then CHR 0x08
      else if e = CHR ''f'' then CHR 0x0C
      else if e = CHR ''n'' then CHR 0x0A
      else if e = CHR ''r'' then CHR 0x0D
      else if e = CHR ''t'' then CHR 0x09
      else e)"

text \<open>
  \<open>unquote\<close>: the bytes a valid string literal stands for. A \<open>\u\<close> escape is one UTF-16
  unit; a high surrogate followed by an escaped low surrogate is one rune, any other
  surrogate is U+FFFD, as is every byte that is not valid UTF-8.
\<close>

function unquote :: "string \<Rightarrow> string" where
  "unquote [] = []"
| "unquote (c # cs) =
     (if c = CHR 0x5C then
        (case cs of
           [] \<Rightarrow> []
         | e # r \<Rightarrow>
             if e = CHR ''u'' then
               (let r1 = getu4 r; r2 = getu4 (drop 6 r) in
                if 0xD800 \<le> r1 \<and> r1 < 0xDC00 \<and> take 2 (drop 4 r) = [CHR 0x5C, CHR ''u''] \<and>
                   0xDC00 \<le> r2 \<and> r2 < 0xE000
                then encode_rune (0x10000 + (r1 - 0xD800) * 0x400 + (r2 - 0xDC00)) @
                     unquote (drop 10 r)
                else encode_rune r1 @ unquote (drop 4 r))
             else unescape_char e # unquote r)
      else if (of_char c :: nat) < 0x80 then c # unquote cs
      else
        (let n = utf8_size (c # cs) in
         if n = 0 then replacement_char @ unquote cs
         else take n (c # cs) @ unquote (drop (n - 1) cs)))"
  by pat_completeness auto
termination
  by (relation "measure length") auto

text \<open>\<open>strconv.ParseInt(lit, 10, 64)\<close> on a JSON number literal.\<close>

definition digits_val :: "string \<Rightarrow> nat" where
  "digits_val ds = foldl (\<lambda>a c. 10 * a + ((of_char c :: nat) - 0x30)) 0 ds"

definition parse_int64 :: "string \<Rightarrow> int64 option" where
  "parse_int64 lit =
     (let neg = (take 1 lit = ''-'');
          ds = (if neg then drop 1 lit else lit);
          v = (if neg then - int (digits_val ds) else int (digits_val ds))
      in if ds \<noteq> [] \<and> list_all is_digit ds \<and> - (2 ^ 63) \<le> v \<and> v < 2 ^ 63
         then Some (word_of_int v) else None)"

text \<open>
  \<open>parseRFC3339\<close> of package time, which \<open>Time.UnmarshalJSON\<close> applies to the text between
  the quotes, escapes unresolved: \<open>2006-01-02T15:04:05\<close>, an optional fraction, then \<open>Z\<close> or
  an offset \<open>+07:00\<close>. (The standard library retries a text this rejects with the general
  layout parser and then rejects what that accepts beyond RFC 3339.)
\<close>

definition parseUint :: "string \<Rightarrow> nat \<Rightarrow> nat \<Rightarrow> nat option" where
  "parseUint ds lo hi =
     (if list_all is_digit ds \<and> lo \<le> digits_val ds \<and> digits_val ds \<le> hi
      then Some (digits_val ds) else None)"

definition isLeap :: "nat \<Rightarrow> bool" where
  "isLeap year \<longleftrightarrow> year mod 4 = 0 \<and> (year mod 100 \<noteq> 0 \<or> year mod 400 = 0)"

definition daysIn :: "nat \<Rightarrow> nat \<Rightarrow> nat" where
  "daysIn month year =
     (if month = 2 then (if isLeap year then 29 else 28)
      else if month = 4 \<or> month = 6 \<or> month = 9 \<or> month = 11 then 30
      else 31)"

definition parse_zone :: "string \<Rightarrow> int option" where
  "parse_zone z =
     (if z = ''Z'' then Some 0
      else if length z \<noteq> 6 then None
      else
        (case (parseUint (take 2 (drop 1 z)) 0 23, parseUint (take 2 (drop 4 z)) 0 59) of
           (Some hr, Some mm) \<Rightarrow>
             if (z ! 0 = CHR ''-'' \<or> z ! 0 = CHR ''+'') \<and> z ! 3 = CHR '':''
             then Some ((if z ! 0 = CHR ''-'' then - 1 else 1) * (int hr * 60 + int mm) * 60)
             else None
         | _ \<Rightarrow> None))"

definition parseRFC3339 :: "string \<Rightarrow> Time option" where
  "parseRFC3339 s =
     (if length s < 19 then None
      else
        (case parseUint (take 4 s) 0 9999 of
           None \<Rightarrow> None
         | Some year \<Rightarrow>
        (case parseUint (take 2 (drop 5 s)) 1 12 of
           None \<Rightarrow> None
         | Some month \<Rightarrow>
        (case (parseUint (take 2 (drop 8 s)) 1 (daysIn month year),
               parseUint (take 2 (drop 11 s)) 0 23,
               parseUint (take 2 (drop 14 s)) 0 59,
               parseUint (take 2 (drop 17 s)) 0 59) of
           (Some day, Some hour, Some minute, Some sec) \<Rightarrow>
             if s ! 4 = CHR ''-'' \<and> s ! 7 = CHR ''-'' \<and> s ! 10 = CHR ''T'' \<and>
                s ! 13 = CHR '':'' \<and> s ! 16 = CHR '':''
             then
               (let r = drop 19 s;
                    frac = (if 2 \<le> length r \<and> r ! 0 = CHR ''.'' \<and> is_digit (r ! 1)
                            then takeWhile is_digit (drop 1 r) else []);
                    ns = digits_val (take 9 (frac @ replicate 9 CHR ''0''));
                    z = (if frac = [] then r else drop (1 + length frac) r)
                in case parse_zone z of
                     None \<Rightarrow> None
                   | Some off \<Rightarrow>
                       Some \<lparr>unix_sec = days_from_civil (int year) (int month) (int day) * 86400 +
                                        int hour * 3600 + int minute * 60 + int sec - off,
                             nsec = ns, zone_offset = off\<rparr>)
             else None
         | _ \<Rightarrow> None))))"

subsection \<open>Reading JSON: into a ProductEvent\<close>

datatype field = F_event_type | F_product_id | F_name | F_timestamp

fun field_name :: "field \<Rightarrow> string" where
  "field_name F_event_type = ''event_type''"
| "field_name F_product_id = ''product_id''"
| "field_name F_name = ''name''"
| "field_name F_timestamp = ''timestamp''"

definition fields :: "field list" where
  "fields = [F_event_type, F_product_id, F_name, F_timestamp]"

text \<open>
  \<open>foldName\<close>: ASCII letters in upper case; the two runes beyond ASCII that fold to an ASCII
  letter, U+017F (long s) and U+212A (Kelvin sign), as \<open>S\<close> and \<open>K\<close>. Every other rune
  folds to a rune beyond ASCII, which no field name contains: its bytes are kept.
\<close>

function fold_name :: "string \<Rightarrow> string" where
  "fold_name [] = []"
| "fold_name (c # cs) =
     (if byte_in 0x61 0x7A c then char_of ((of_char c :: nat) - 0x20) # fold_name cs
      else if take 2 (c # cs) = [CHR 0xC5, CHR 0xBF] then CHR ''S'' # fold_name (drop 1 cs)
      else if take 3 (c # cs) = [CHR 0xE2, CHR 0x84, CHR 0xAA] then CHR ''K'' # fold_name (drop 2 cs)
      else c # fold_name cs)"
  by pat_completeness auto
termination
  by (relation "measure length") auto

text \<open>The struct field a member name selects: an exact match first, then one up to case.\<close>

definition match_field :: "string \<Rightarrow> field option" where
  "match_field k =
     (case find (\<lambda>f. field_name f = k) fields of
        Some f \<Rightarrow> Some f
      | None \<Rightarrow> find (\<lambda>f. fold_name (field_name f) = fold_name k) fields)"

definition type_error :: "json \<Rightarrow> field \<Rightarrow> error" where
  "type_error v f =
     External (''json: cannot unmarshal '' @
       (case v of JNull \<Rightarrow> ''null'' | JBool b \<Rightarrow> ''bool'' | JNumber lit \<Rightarrow> ''number '' @ lit
        | JString raw \<Rightarrow> ''string'' | JArray vs \<Rightarrow> ''array'' | JObject ms \<Rightarrow> ''object'') @
       '' into Go struct field ProductEvent.'' @ field_name f)"

text \<open>
  One member value into its field. \<open>null\<close> leaves every field as it is; a string field takes
  a string, \<open>product_id\<close> a number that is an \<open>int64\<close>, \<open>timestamp\<close> (through
  \<open>Time.UnmarshalJSON\<close>) a string in RFC 3339.
\<close>

definition decode_field :: "field \<Rightarrow> json \<Rightarrow> ProductEvent \<Rightarrow> error + ProductEvent" where
  "decode_field f v ev =
     (if v = JNull then Inr ev
      else
        (case f of
           F_event_type \<Rightarrow>
             (case v of
                JString raw \<Rightarrow> Inr (ev\<lparr>EventType := unquote raw\<rparr>)
              | _ \<Rightarrow> Inl (type_error v f))
         | F_name \<Rightarrow>
             (case v of
                JString raw \<Rightarrow> Inr (ev\<lparr>Name := unquote raw\<rparr>)
              | _ \<Rightarrow> Inl (type_error v f))
         | F_product_id \<Rightarrow>
             (case v of
                JNumber lit \<Rightarrow>
                  (case parse_int64 lit of
                     None \<Rightarrow> Inl (type_error v f)
                   | Some n \<Rightarrow> Inr (ev\<lparr>ProductID := n\<rparr>))
              | _ \<Rightarrow> Inl (type_error v f))
         | F_timestamp \<Rightarrow>
             (case v of
                JString raw \<Rightarrow>
                  (case parseRFC3339 raw of
                     None \<Rightarrow> Inl (External (''parsing time '' @ quoted raw))
                   | Some t \<Rightarrow> Inr (ev\<lparr>Timestamp := t\<rparr>))
              | _ \<Rightarrow> Inl (External ''Time.UnmarshalJSON: input is not a JSON string''))))"

text \<open>
  The members of an object in their order. A member whose name selects no field is skipped.
  A type error is kept (the first one) while decoding goes on; an error of
  \<open>Time.UnmarshalJSON\<close> ends it.
\<close>

fun decode_members ::
  "(string \<times> json) list \<Rightarrow> ProductEvent \<Rightarrow> error option \<Rightarrow> error option \<times> ProductEvent" where
  "decode_members [] ev saved = (saved, ev)"
| "decode_members ((k, v) # ms) ev saved =
     (case match_field (unquote k) of
        None \<Rightarrow> decode_members ms ev saved
      | Some f \<Rightarrow>
          (case decode_field f v ev of
             Inr ev1 \<Rightarrow> decode_members ms ev1 saved
           | Inl e \<Rightarrow>
               if f = F_timestamp then (Some e, ev)
               else decode_members ms ev (if saved = None then Some e else saved)))"

definition zero_ProductEvent :: ProductEvent where
  "zero_ProductEvent = \<lparr>EventType = [], ProductID = 0, Name = [], Timestamp = zero_Time\<rparr>"

text \<open>
  \<open>json.Unmarshal(body, &event)\<close>: the error, if any, and the event as it is left. \<open>null\<close>
  changes nothing and is no error; any other value that is not an object is one.
\<close>

definition json_Unmarshal :: "string \<Rightarrow> ProductEvent \<Rightarrow> error option \<times> ProductEvent" where
  "json_Unmarshal body ev =
     (case json_parse body of
        None \<Rightarrow> (Some (External ''invalid JSON syntax''), ev)
      | Some JNull \<Rightarrow> (None, ev)
      | Some (JObject ms) \<Rightarrow> decode_members ms ev None
      | Some v \<Rightarrow>
          (Some (External ''json: cannot unmarshal into Go value of type products.ProductEvent''),
           ev))"

section \<open>The publisher (package messaging)\<close>

definition contentTypeJSON :: string where
  "contentTypeJSON = ''application/json''"

record Publishing =
  ContentType :: string
  Body :: string

text \<open>The arguments of one \<open>Channel.PublishWithContext\<close> call.\<close>

record publish_args =
  exchange :: string
  key :: string
  mandatory :: bool
  immediate :: bool
  msg :: Publishing

text \<open>
  \<open>RabbitPublisher.Publish\<close>. The publisher holds the queue name and the channel; \<open>send\<close> is
  the channel's \<open>PublishWithContext\<close>, acting on the state \<open>'c\<close> of the broker connection.
  The \<open>%q\<close> of the error text is written for a queue name of plain printable characters.
\<close>

definition RabbitPublisher_Publish ::
  "(publish_args \<Rightarrow> 'c \<Rightarrow> error option \<times> 'c) \<Rightarrow> string \<Rightarrow> ProductEvent \<Rightarrow> 'c
     \<Rightarrow> error option \<times> 'c" where
  "RabbitPublisher_Publish send queue event ch =
     (case json_Marshal event of
        Inl err \<Rightarrow> (Some (Wrapf ''marshal event'' err), ch)
      | Inr payload \<Rightarrow>
          (case send \<lparr>exchange = [], key = queue, mandatory = False, immediate = False,
                      msg = \<lparr>ContentType = contentTypeJSON, Body = payload\<rparr>\<rparr> ch of
             (Some err, ch1) \<Rightarrow> (Some (Wrapf (''publish to '' @ quoted queue) err), ch1)
           | (None, ch1) \<Rightarrow> (None, ch1)))"

text \<open>A broker that takes every message (it keeps the bodies), and one that is down.\<close>

definition broker_up :: "publish_args \<Rightarrow> string list \<Rightarrow> error option \<times> string list" where
  "broker_up a sent = (None, sent @ [Body (msg a)])"

definition broker_down :: "publish_args \<Rightarrow> string list \<Rightarrow> error option \<times> string list" where
  "broker_down a sent = (Some (External ''channel/connection is not open''), sent)"

section \<open>The consumer (package notifications)\<close>

definition consumerTag :: string where
  "consumerTag = ''notifications-service''"

text \<open>An \<open>amqp.Delivery\<close>, as far as the consumer reads it.\<close>

record Delivery =
  DeliveryTag :: "64 word"
  Body :: string

text \<open>
  The calls the consumer makes on the channel: \<open>Consume\<close> with its arguments, and through
  a delivery \<open>Ack(multiple)\<close> and \<open>Nack(multiple, requeue)\<close> for its delivery tag.
\<close>

datatype channel_call =
    Consume_call string string bool bool bool bool
  | Ack_call "64 word" bool
  | Nack_call "64 word" bool bool

record consumer_world =
  clogs :: "log_entry list"
  calls :: "channel_call list"

text \<open>\<open>handleMessage\<close>: the error it returns, and the logger's output.\<close>

definition handleMessage ::
  "Delivery \<Rightarrow> log_entry list \<Rightarrow> error option \<times> log_entry list" where
  "handleMessage m lg =
     (case json_Unmarshal (Body m) zero_ProductEvent of
        (Some e, event) \<Rightarrow> (Some (Wrapf ''unmarshal event'' e), lg)
      | (None, event) \<Rightarrow>
          (None, lg @ [Log LevelInfo ''notification event''
                         [(''event_type'', AString (EventType event)),
                          (''product_id'', AInt64 (ProductID event)),
                          (''name'', AString (Name event)),
                          (''timestamp'', ATime (Timestamp event))]]))"

text \<open>
  What one \<open>select\<close> of the loop yields: the context is done, a delivery arrives, or the
  delivery channel is found closed. A run of the consumer is given by the outcomes of its
  selects in order; after the last one given the loop is waiting in the \<open>select\<close>.
\<close>

datatype select_case = Ctx_Done | Msgs_Recv Delivery | Msgs_Closed

datatype listen_result = Returned "error option" | Waiting

fun Listen_loop :: "select_case list \<Rightarrow> consumer_world \<Rightarrow> listen_result \<times> consumer_world" where
  "Listen_loop [] w = (Waiting, w)"
| "Listen_loop (Ctx_Done # rest) w = (Returned None, w)"
| "Listen_loop (Msgs_Closed # rest) w = (Returned None, w)"
| "Listen_loop (Msgs_Recv m # rest) w =
     (case handleMessage m (clogs w) of
        (Some e, lg) \<Rightarrow>
          Listen_loop rest
            (w\<lparr>clogs := lg @ [Log LevelError ''handle message failed'' [(''error'', AError e)]],
               calls := calls w @ [Nack_call (DeliveryTag m) False True]\<rparr>)
      | (None, lg) \<Rightarrow>
          Listen_loop rest (w\<lparr>clogs := lg, calls := calls w @ [Ack_call (DeliveryTag m) False]\<rparr>))"

text \<open>
  \<open>Listen\<close>: \<open>consume_err\<close> is the error of the initial \<open>Channel.Consume\<close> (manual
  acknowledgement: \<open>autoAck\<close> is false), if it fails.
\<close>

definition Listen ::
  "string \<Rightarrow> error option \<Rightarrow> select_case list \<Rightarrow> consumer_world
     \<Rightarrow> listen_result \<times> consumer_world" where
  "Listen queue consume_err sched w =
     (let w1 = w\<lparr>calls := calls w @ [Consume_call queue consumerTag False False False False]\<rparr>
      in case consume_err of
           Some e \<Rightarrow> (Returned (Some (Wrapf (''consume queue '' @ quoted queue) e)), w1)
         | None \<Rightarrow> Listen_loop sched w1)"

text \<open>The deliveries a run receives before the loop returns.\<close>

fun received :: "select_case list \<Rightarrow> Delivery list" where
  "received (Msgs_Recv m # rest) = m # received rest"
| "received sched = []"

definition is_stop :: "select_case \<Rightarrow> bool" where
  "is_stop c \<longleftrightarrow> c = Ctx_Done \<or> c = Msgs_Closed"

text \<open>
  The call the loop makes for a delivery once it is handled: a single-message
  acknowledgement when the body deserializes, a single-message negative acknowledgement with
  requeue when it does not.
\<close>

definition acknowledgement :: "Delivery \<Rightarrow> channel_call" where
  "acknowledgement m =
     (if fst (json_Unmarshal (Body m) zero_ProductEvent) = None
      then Ack_call (DeliveryTag m) False
      else Nack_call (DeliveryTag m) False True)"

section \<open>The wire contract in the words of the specification\<close>


section \<open>The test doubles of service\_test.go\<close>

text \<open>
  \<open>mockPublisher\<close> appends each event to \<open>events\<close> and returns its fixed \<open>err\<close>;
  \<open>defaultRepo\<close> creates product 1 with the name it is given, deletes anything, lists
  nothing and counts 0 (its \<open>CreatedAt\<close>, the clock of the test run, is taken as the zero
  time). The list function also records the limit and the offset it is called with, which the
  test inspects.
\<close>

record mock =
  events :: "ProductEvent list"
  err :: "error option"
  list_args :: "(go_int \<times> go_int) list"

definition mock_deps :: "mock deps" where
  "mock_deps =
     \<lparr>repo_Create = (\<lambda>name m. (Inr \<lparr>ID = 1, Product.Name = name, CreatedAt = zero_Time\<rparr>, m)),
      repo_Delete = (\<lambda>id0 m. (None, m)),
      repo_List = (\<lambda>limit offset m. (Inr [], m\<lparr>list_args := list_args m @ [(limit, offset)]\<rparr>)),
      repo_Count = (\<lambda>m. (Inr 0, m)),
      pub_Publish = (\<lambda>ev m. (err m, m\<lparr>events := events m @ [ev]\<rparr>))\<rparr>"

text \<open>The repository double of the failing test cases: \<open>Create\<close> and \<open>Delete\<close> return \<open>e\<close>.\<close>

definition failing_deps :: "error \<Rightarrow> mock deps" where
  "failing_deps e =
     mock_deps\<lparr>repo_Create := (\<lambda>name m. (Inl e, m)), repo_Delete := (\<lambda>id0 m. (Some e, m))\<rparr>"

definition mock_world :: "error option \<Rightarrow> mock world" where
  "mock_world e =
     \<lparr>ext = \<lparr>events = [], err = e, list_args = []\<rparr>,
      logs = [], created = 0, deleted = 0, published = []\<rparr>"

section \<open>Example inputs\<close>

text \<open>Two clock readings: 2026-01-01T00:00:00Z and 10000-01-01T00:00:00Z.\<close>

definition new_year_2026 :: Time where
  "new_year_2026 = \<lparr>unix_sec = 1767225600, nsec = 0, zone_offset = 0\<rparr>"

definition new_year_10000 :: Time where
  "new_year_10000 = \<lparr>unix_sec = 253402300800, nsec = 0, zone_offset = 0\<rparr>"

text \<open>
  Message bodies: the created event of the specification's scenario; the same cut off in the
  middle; a JSON object under other field names; an object whose \<open>product_id\<close> is a string.
\<close>

definition scenario_body :: string where
  "scenario_body =
     ''{'' @ quoted ''event_type'' @ '':'' @ quoted ''product_created'' @ '','' @
     quoted ''product_id'' @ '':7,'' @ quoted ''name'' @ '':'' @ quoted ''Widget'' @ '','' @
     quoted ''timestamp'' @ '':'' @ quoted ''2026-01-01T00:00:00Z'' @ ''}''"

definition truncated_body :: string where
  "truncated_body = ''{'' @ quoted ''event_type'' @ '':'' @ CHR 0x22 # ''product_cr''"




section \<open>The pagination rule in the words of the specification\<close>

text \<open>
  The effective limit and the offset as the specification states them, over the mathematical
  integers; the code's values are compared with these.
\<close>

definition spec_limit :: "int \<Rightarrow> int" where
  "spec_limit limit = (if limit < 1 then 10 else if limit > 100 then 100 else limit)"

definition spec_offset :: "int \<Rightarrow> int \<Rightarrow> int" where
  "spec_offset page limit = (max page 1 - 1) * spec_limit limit"

section \<open>Properties of the service\<close>

lemma TrimSpace_Widget: "TrimSpace ''Widget'' = ''Widget''"
  by (simp add: TrimSpace_def leading_space_def space_encodings_def)


lemma TrimSpace_blank: "TrimSpace ''   '' = []"
  by (simp add: TrimSpace_def leading_space_def space_encodings_def)

text \<open>
  C1 (publish-failure resilience). Whenever the repository mutation of a \<open>CreateProduct\<close>
  or \<open>DeleteProduct\<close> call succeeds, the call returns success (the created product, or no
  error), whatever \<open>Publisher.Publish\<close> returns; a publish error only adds one error line to
  the log.
\<close>

theorem publish_failure_absorbed:
  "(TrimSpace name0 \<noteq> [] \<and> repo_Create d (TrimSpace name0) (ext w) = (Inr p, x1) \<longrightarrow>
      fst (CreateProduct d now name0 w) = Inr p \<and>
      logs (snd (CreateProduct d now name0 w)) = logs w @
        (case fst (pub_Publish d \<lparr>EventType = EventCreated, ProductID = ID p,
                     Name = Product.Name p, Timestamp = UTC now\<rparr> x1) of
           None \<Rightarrow> []
         | Some e \<Rightarrow> [Log LevelError ''publish product_created event failed''
                        [(''product_id'', AInt64 (ID p)), (''error'', AError e)]])) \<and>
   (repo_Delete d i (ext w) = (None, x2) \<longrightarrow>
      fst (DeleteProduct d now i w) = None \<and>
      logs (snd (DeleteProduct d now i w)) = logs w @
        (case fst (pub_Publish d \<lparr>EventType = EventDeleted, ProductID = i,
                     Name = [], Timestamp = UTC now\<rparr> x2) of
           None \<Rightarrow> []
         | Some e \<Rightarrow> [Log LevelError ''publish product_deleted event failed''
                        [(''product_id'', AInt64 i), (''error'', AError e)]]))"
  by (auto simp: CreateProduct_def DeleteProduct_def Let_def split: prod.splits option.splits)

theorem publish_failure_absorbed_witness:
  "TrimSpace ''Widget'' \<noteq> [] \<and>
   repo_Create mock_deps (TrimSpace ''Widget'') (ext (mock_world (Some (External ''broker down'')))) =
     (Inr \<lparr>ID = 1, Product.Name = ''Widget'', CreatedAt = zero_Time\<rparr>,
      ext (mock_world (Some (External ''broker down'')))) \<and>
   fst (pub_Publish mock_deps \<lparr>EventType = EventCreated, ProductID = 1, Name = ''Widget'',
          Timestamp = UTC zero_Time\<rparr> (ext (mock_world (Some (External ''broker down''))))) =
     Some (External ''broker down'') \<and>
   fst (CreateProduct mock_deps zero_Time ''Widget'' (mock_world (Some (External ''broker down'')))) =
     Inr \<lparr>ID = 1, Product.Name = ''Widget'', CreatedAt = zero_Time\<rparr> \<and>
   repo_Delete mock_deps 42 (ext (mock_world (Some (External ''broker down'')))) =
     (None, ext (mock_world (Some (External ''broker down'')))) \<and>
   fst (DeleteProduct mock_deps zero_Time 42 (mock_world (Some (External ''broker down'')))) = None \<and>
   logs (snd (DeleteProduct mock_deps zero_Time 42 (mock_world (Some (External ''broker down''))))) =
     [Log LevelError ''publish product_deleted event failed''
        [(''product_id'', AInt64 42), (''error'', AError (External ''broker down''))]]"
  using publish_failure_absorbed [of "''Widget''" mock_deps "mock_world (Some (External ''broker down''))"
      "\<lparr>ID = 1, Product.Name = ''Widget'', CreatedAt = zero_Time\<rparr>"
      "ext (mock_world (Some (External ''broker down'')))" zero_Time 42
      "ext (mock_world (Some (External ''broker down'')))"]
  by (simp add: TrimSpace_Widget mock_deps_def mock_world_def)



text \<open>
  C6 (no event on a failed mutation). A \<open>CreateProduct\<close> or \<open>DeleteProduct\<close> call that
  returns an error has not invoked \<open>Publisher.Publish\<close>: the sequence of published events is
  unchanged. A name that is blank after trimming gives \<open>ErrInvalidName\<close> and changes
  nothing; a failed repository call gives the wrapped repository error and only the
  repository has acted.
\<close>

theorem no_event_on_failed_mutation:
  "(fst (CreateProduct d now name0 w) = Inl e \<longrightarrow>
      published (snd (CreateProduct d now name0 w)) = published w) \<and>
   (TrimSpace name0 = [] \<longrightarrow> CreateProduct d now name0 w = (Inl ErrInvalidName, w)) \<and>
   (TrimSpace name0 \<noteq> [] \<and> repo_Create d (TrimSpace name0) (ext w) = (Inl e1, x1) \<longrightarrow>
      CreateProduct d now name0 w = (Inl (Wrapf ''repo create'' e1), w\<lparr>ext := x1\<rparr>)) \<and>
   (fst (DeleteProduct d now i w) = Some e \<longrightarrow>
      published (snd (DeleteProduct d now i w)) = published w) \<and>
   (repo_Delete d i (ext w) = (Some e2, x2) \<longrightarrow>
      DeleteProduct d now i w = (Some (Wrapf ''repo delete'' e2), w\<lparr>ext := x2\<rparr>))"
  by (auto simp: CreateProduct_def DeleteProduct_def Let_def split: prod.splits option.splits sum.splits)

theorem no_event_on_failed_mutation_witness:
  "CreateProduct mock_deps zero_Time ''   '' (mock_world None) =
     (Inl ErrInvalidName, mock_world None) \<and>
   fst (CreateProduct (failing_deps (External ''db down'')) zero_Time ''Widget'' (mock_world None)) =
     Inl (Wrapf ''repo create'' (External ''db down'')) \<and>
   published (snd (CreateProduct (failing_deps (External ''db down'')) zero_Time ''Widget''
     (mock_world None))) = [] \<and>
   events (ext (snd (CreateProduct (failing_deps (External ''db down'')) zero_Time ''Widget''
     (mock_world None)))) = [] \<and>
   fst (DeleteProduct (failing_deps ErrNotFound) zero_Time 999 (mock_world None)) =
     Some (Wrapf ''repo delete'' ErrNotFound) \<and>
   errors_Is (Wrapf ''repo delete'' ErrNotFound) ErrNotFound \<and>
   published (snd (DeleteProduct (failing_deps ErrNotFound) zero_Time 999 (mock_world None))) = [] \<and>
   events (ext (snd (DeleteProduct (failing_deps ErrNotFound) zero_Time 999 (mock_world None)))) = []"
  using no_event_on_failed_mutation [of mock_deps zero_Time "''   ''" "mock_world None"]
    no_event_on_failed_mutation [of "failing_deps (External ''db down'')" zero_Time "''Widget''"
      "mock_world None" "Wrapf ''repo create'' (External ''db down'')" "External ''db down''"
      "ext (mock_world None)" 999]
    no_event_on_failed_mutation [of "failing_deps ErrNotFound" zero_Time "''Widget''"
      "mock_world None" "Wrapf ''repo delete'' ErrNotFound" "ErrNotFound"
      "ext (mock_world None)" 999 ErrNotFound "ext (mock_world None)"]
  by (simp add: TrimSpace_blank TrimSpace_Widget failing_deps_def mock_deps_def mock_world_def)

lemma CreateProduct_published:
  "set (published (snd (CreateProduct d now name0 w))) \<subseteq>
     set (published w) \<union> {ev. EventType ev = ''product_created''}"
  by (auto simp: CreateProduct_def Let_def EventCreated_def split: prod.splits option.splits sum.splits)

lemma DeleteProduct_published:
  "set (published (snd (DeleteProduct d now i w))) \<subseteq>
     set (published w) \<union> {ev. EventType ev = ''product_deleted''}"
  by (auto simp: DeleteProduct_def Let_def EventDeleted_def split: prod.splits option.splits sum.splits)

lemma ListProducts_published:
  "published (snd (ListProducts d page0 limit0 w)) = published w"
  by (auto simp: ListProducts_def Let_def split: prod.splits option.splits sum.splits)

lemma handle_published:
  "set (published (handle d r w)) \<subseteq>
     set (published w) \<union> {ev. EventType ev = ''product_created'' \<or> EventType ev = ''product_deleted''}"
proof (cases r)
  case (Create_Request now name0)
  then show ?thesis using CreateProduct_published [of d now name0 w] by auto
next
  case (Delete_Request now i)
  then show ?thesis using DeleteProduct_published [of d now i w] by auto
next
  case (List_Request p l)
  then show ?thesis by (simp add: ListProducts_published)
qed

lemma handle_all_published:
  "set (published (handle_all d rs w)) \<subseteq>
     set (published w) \<union> {ev. EventType ev = ''product_created'' \<or> EventType ev = ''product_deleted''}"
proof (induction rs arbitrary: w)
  case Nil
  then show ?case by simp
next
  case (Cons r rs)
  have "set (published (handle_all d rs (handle d r w))) \<subseteq>
     set (published (handle d r w)) \<union> {ev. EventType ev = ''product_created'' \<or> EventType ev = ''product_deleted''}"
    by (rule Cons.IH)
  with handle_published [of d r w] show ?case by auto
qed

text \<open>
  C7 (event-type invariant). Whatever requests the service handles, every event it has handed
  to \<open>Publisher.Publish\<close> has the type \<open>product_created\<close> or \<open>product_deleted\<close>.
\<close>

theorem event_type_invariant:
  assumes "published w = []"
  shows "\<forall>ev \<in> set (published (handle_all d rs w)).
           EventType ev = ''product_created'' \<or> EventType ev = ''product_deleted''"
  using handle_all_published [of d rs w] assms by auto

theorem event_type_invariant_witness:
  "published (mock_world None) = [] \<and>
   map EventType (published (handle_all mock_deps
       [Create_Request zero_Time ''Widget'', List_Request 1 10, Delete_Request zero_Time 42]
       (mock_world None))) = [''product_created'', ''product_deleted'']"
  using event_type_invariant [of "mock_world None" mock_deps
      "[Create_Request zero_Time ''Widget'', List_Request 1 10, Delete_Request zero_Time 42]"]
  by (simp add: mock_world_def mock_deps_def CreateProduct_def DeleteProduct_def ListProducts_def
      Let_def TrimSpace_Widget EventCreated_def EventDeleted_def)

lemma sint_effective_limit: "sint (effective_limit limit0) = spec_limit (sint limit0)"
  by (simp add: effective_limit_def spec_limit_def Let_def defaultPageSize_def maxPageSize_def)

lemma sint_effective_page: "sint (effective_page page0) = max (sint page0) 1"
  by (simp add: effective_page_def max_def)

lemma sint_pred:
  fixes p :: go_int
  assumes "1 \<le> sint p"
  shows "sint (p - 1) = sint p - 1"
proof -
  have "sint p < 2 ^ 63" using sint_lt [of p] by simp
  with assms have "signed_take_bit 63 (sint p - 1) = sint p - 1"
    by (intro signed_take_bit_int_eq_self) auto
  then show ?thesis by (simp add: sint_word_ariths)
qed

lemma sint_offset:
  "sint ((effective_page page0 - 1) * effective_limit limit0) =
     signed_take_bit 63 (spec_offset (sint page0) (sint limit0))"
proof -
  have "1 \<le> sint (effective_page page0)" by (simp add: sint_effective_page)
  then have "sint (effective_page page0 - 1) = max (sint page0) 1 - 1"
    by (simp add: sint_pred sint_effective_page)
  then show ?thesis
    by (simp add: sint_word_ariths spec_offset_def sint_effective_limit)
qed

lemma spec_offset_nonneg: "0 \<le> spec_offset page limit"
  by (simp add: spec_offset_def spec_limit_def)

text \<open>
  C10 (pagination clamping), the offset in machine arithmetic. \<open>ListProducts\<close> calls the repository with the
  limit of the specification, and with the offset of the specification computed in Go's
  64-bit \<open>int\<close> arithmetic: the two agree whenever the product does not exceed the largest
  \<open>int\<close>. When \<open>List\<close> and \<open>Count\<close> both succeed, their results are returned unmodified.
\<close>

theorem pagination_clamping:
  "sint (effective_limit limit0) = spec_limit (sint limit0) \<and>
   sint ((effective_page page0 - 1) * effective_limit limit0) =
     signed_take_bit 63 (spec_offset (sint page0) (sint limit0)) \<and>
   (spec_offset (sint page0) (sint limit0) < 2 ^ 63 \<longrightarrow>
      sint ((effective_page page0 - 1) * effective_limit limit0) =
        spec_offset (sint page0) (sint limit0)) \<and>
   (repo_List d (effective_limit limit0) ((effective_page page0 - 1) * effective_limit limit0) (ext w)
        = (Inr items, x1) \<and> repo_Count d x1 = (Inr n, x2) \<longrightarrow>
      ListProducts d page0 limit0 w = (Inr (items, n), w\<lparr>ext := x2\<rparr>))"
proof -
  have "spec_offset (sint page0) (sint limit0) < 2 ^ 63 \<Longrightarrow>
      signed_take_bit 63 (spec_offset (sint page0) (sint limit0)) =
        spec_offset (sint page0) (sint limit0)"
    using spec_offset_nonneg [of "sint page0" "sint limit0"]
    by (intro signed_take_bit_int_eq_self) auto
  then show ?thesis
    by (simp add: sint_effective_limit sint_offset ListProducts_def Let_def)
qed

theorem pagination_clamping_witness:
  "spec_offset (sint (2 :: go_int)) (sint (2 :: go_int)) < 2 ^ 63 \<and>
   sint ((effective_page 2 - 1) * effective_limit 2) = 2 \<and>
   sint (effective_limit 500) = 100 \<and> sint (effective_limit 0) = 10 \<and>
   repo_List mock_deps (effective_limit 2) ((effective_page 2 - 1) * effective_limit 2)
       (ext (mock_world None)) =
     (Inr [], \<lparr>events = [], err = None, list_args = [(2, 2)]\<rparr>) \<and>
   repo_Count mock_deps \<lparr>events = [], err = None, list_args = [(2, 2)]\<rparr> =
     (Inr 0, \<lparr>events = [], err = None, list_args = [(2, 2)]\<rparr>) \<and>
   ListProducts mock_deps 2 2 (mock_world None) =
     (Inr ([], 0), (mock_world None)\<lparr>ext := \<lparr>events = [], err = None, list_args = [(2, 2)]\<rparr>\<rparr>)"
  using pagination_clamping [of 2 2 mock_deps "mock_world None" "[]"
      "\<lparr>events = [], err = None, list_args = [(2, 2)]\<rparr>" 0
      "\<lparr>events = [], err = None, list_args = [(2, 2)]\<rparr>"]
    pagination_clamping [of 500 2 mock_deps "mock_world None" "[]"
      "\<lparr>events = [], err = None, list_args = [(2, 2)]\<rparr>" 0
      "\<lparr>events = [], err = None, list_args = [(2, 2)]\<rparr>"]
    pagination_clamping [of 0 2 mock_deps "mock_world None" "[]"
      "\<lparr>events = [], err = None, list_args = [(2, 2)]\<rparr>" 0
      "\<lparr>events = [], err = None, list_args = [(2, 2)]\<rparr>"]
  by (simp add: spec_offset_def spec_limit_def mock_deps_def mock_world_def effective_page_def
      effective_limit_def defaultPageSize_def maxPageSize_def)

text \<open>
  Over the mathematical integers the offset of the specification is not what the repository
  receives on overflow: page \<open>2^63 - 1\<close> with limit 100 gives the offset \<open>-200\<close>.
\<close>

theorem pagination_overflow_counterexample:
  "list_args (ext (snd (ListProducts mock_deps 0x7FFFFFFFFFFFFFFF 100 (mock_world None)))) =
     [(100, - 200)] \<and>
   sint (- 200 :: go_int) \<noteq> (max (sint (0x7FFFFFFFFFFFFFFF :: go_int)) 1 - 1) * 100"
  by (simp add: ListProducts_def Let_def mock_deps_def mock_world_def effective_page_def
      effective_limit_def defaultPageSize_def maxPageSize_def)

section \<open>Properties of the publisher\<close>

subsection \<open>Evaluations\<close>

lemma Year_2026: "Year (UTC new_year_2026) = 2026"
  by code_simp

lemma Year_10000: "Year (UTC new_year_10000) = 10000"
  by code_simp

lemma format_2026: "appendFormatRFC3339 (UTC new_year_2026) = ''2026-01-01T00:00:00Z''"
  by code_simp


lemma format_1: "format_int64 1 = ''1''"
  by (simp add: format_int64_def appendInt_def digit_char_def)

lemma escape_Widget: "escape ''Widget'' = ''Widget''"
  by (simp add: escape_ascii_def)

lemma escape_product_created: "escape ''product_created'' = ''product_created''"
  by (simp add: escape_ascii_def)



subsection \<open>Marshalling an event\<close>

lemma Time_MarshalJSON_UTC:
  "Time_MarshalJSON (UTC now) =
     (if Year (UTC now) < 0 \<or> 9999 < Year (UTC now)
      then Inl (External ''Time.MarshalJSON: year outside of range [0,9999]'')
      else Inr (appendFormatRFC3339 (UTC now)))"
  by (simp add: Time_MarshalJSON_def UTC_def)




lemma json_Marshal_in_range:
  assumes "0 \<le> Year (UTC now)" and "Year (UTC now) \<le> 9999"
  shows "json_Marshal \<lparr>EventType = et, ProductID = i, Name = n, Timestamp = UTC now\<rparr> =
     Inr (render (JObject ([(''event_type'', JString (escape et)),
                            (''product_id'', JNumber (format_int64 i))] @
                           (if n = [] then [] else [(''name'', JString (escape n))]) @
                           [(''timestamp'', JString (appendFormatRFC3339 (UTC now)))])))"
  using assms
  by (simp add: json_Marshal_def ProductEvent_members_def Time_MarshalJSON_UTC del: render.simps)

text \<open>
  C8 (serialization failure), for the years 0 to 9999. For every event the service builds at a clock
  reading whose year in UTC is from 0 to 9999, whatever its type, identifier and name,
  \<open>json.Marshal\<close> succeeds, and \<open>Publish\<close> returns an error exactly when the transport
  does: the wrapped transport error.
\<close>

theorem marshal_succeeds_within_year_range:
  "0 \<le> Year (UTC now) \<and> Year (UTC now) \<le> 9999 \<longrightarrow>
     (\<exists>body. json_Marshal \<lparr>EventType = et, ProductID = i, Name = n, Timestamp = UTC now\<rparr> = Inr body \<and>
        RabbitPublisher_Publish send queue
            \<lparr>EventType = et, ProductID = i, Name = n, Timestamp = UTC now\<rparr> ch =
          (case send \<lparr>exchange = [], key = queue, mandatory = False, immediate = False,
                      msg = \<lparr>ContentType = ''application/json'', Body = body\<rparr>\<rparr> ch of
             (Some e, ch1) \<Rightarrow> (Some (Wrapf (''publish to '' @ quoted queue) e), ch1)
           | (None, ch1) \<Rightarrow> (None, ch1)))"
  by (auto simp: json_Marshal_in_range RabbitPublisher_Publish_def contentTypeJSON_def
      simp del: render.simps)

theorem marshal_succeeds_within_year_range_witness:
  "0 \<le> Year (UTC new_year_2026) \<and> Year (UTC new_year_2026) \<le> 9999 \<and>
   json_Marshal \<lparr>EventType = ''product_created'', ProductID = 1, Name = ''Widget'',
                 Timestamp = UTC new_year_2026\<rparr> =
     Inr (''{'' @ quoted ''event_type'' @ '':'' @ quoted ''product_created'' @ '','' @
          quoted ''product_id'' @ '':1,'' @ quoted ''name'' @ '':'' @ quoted ''Widget'' @ '','' @
          quoted ''timestamp'' @ '':'' @ quoted ''2026-01-01T00:00:00Z'' @ ''}'') \<and>
   fst (RabbitPublisher_Publish broker_down EventsQueue
       \<lparr>EventType = ''product_created'', ProductID = 1, Name = ''Widget'',
         Timestamp = UTC new_year_2026\<rparr> []) =
     Some (Wrapf (''publish to '' @ quoted ''products.events'')
             (External ''channel/connection is not open'')) \<and>
   fst (RabbitPublisher_Publish broker_up EventsQueue
       \<lparr>EventType = ''product_created'', ProductID = 1, Name = ''Widget'',
         Timestamp = UTC new_year_2026\<rparr> []) = None"
proof -
  have y: "0 \<le> Year (UTC new_year_2026) \<and> Year (UTC new_year_2026) \<le> 9999"
    by (simp add: Year_2026)
  have m: "json_Marshal \<lparr>EventType = ''product_created'', ProductID = 1, Name = ''Widget'',
                 Timestamp = UTC new_year_2026\<rparr> =
     Inr (''{'' @ quoted ''event_type'' @ '':'' @ quoted ''product_created'' @ '','' @
          quoted ''product_id'' @ '':1,'' @ quoted ''name'' @ '':'' @ quoted ''Widget'' @ '','' @
          quoted ''timestamp'' @ '':'' @ quoted ''2026-01-01T00:00:00Z'' @ ''}'')"
    using y
    by (simp add: json_Marshal_in_range format_1 format_2026 escape_Widget
        escape_product_created quoted_def del: escape.simps)
  from marshal_succeeds_within_year_range [of new_year_2026 "''product_created''" 1 "''Widget''"
      broker_down EventsQueue "[]"] y m
  have d: "fst (RabbitPublisher_Publish broker_down EventsQueue
       \<lparr>EventType = ''product_created'', ProductID = 1, Name = ''Widget'',
         Timestamp = UTC new_year_2026\<rparr> []) =
     Some (Wrapf (''publish to '' @ quoted ''products.events'')
             (External ''channel/connection is not open''))"
    by (auto simp: broker_down_def EventsQueue_def)
  from marshal_succeeds_within_year_range [of new_year_2026 "''product_created''" 1 "''Widget''"
      broker_up EventsQueue "[]"] y m
  have u: "fst (RabbitPublisher_Publish broker_up EventsQueue
       \<lparr>EventType = ''product_created'', ProductID = 1, Name = ''Widget'',
         Timestamp = UTC new_year_2026\<rparr> []) = None"
    by (auto simp: broker_up_def)
  from y m d u show ?thesis by blast
qed

text \<open>
  For a time value in general serialization can fail: at the clock reading
  10000-01-01T00:00:00Z the event \<open>CreateProduct\<close> builds does not marshal, and \<open>Publish\<close>
  returns an error although the broker takes every message.
\<close>

theorem marshal_fails_counterexample:
  "published (snd (CreateProduct mock_deps new_year_10000 ''Widget'' (mock_world None))) =
     [\<lparr>EventType = ''product_created'', ProductID = 1, Name = ''Widget'',
       Timestamp = UTC new_year_10000\<rparr>] \<and>
   json_Marshal \<lparr>EventType = ''product_created'', ProductID = 1, Name = ''Widget'',
                 Timestamp = UTC new_year_10000\<rparr> =
     Inl (External ''json: error calling MarshalJSON for type time.Time: Time.MarshalJSON: year outside of range [0,9999]'') \<and>
   RabbitPublisher_Publish broker_up EventsQueue
       \<lparr>EventType = ''product_created'', ProductID = 1, Name = ''Widget'',
         Timestamp = UTC new_year_10000\<rparr> [] =
     (Some (Wrapf ''marshal event'' (External ''json: error calling MarshalJSON for type time.Time: Time.MarshalJSON: year outside of range [0,9999]'')), [])"
proof -
  have m: "json_Marshal \<lparr>EventType = ''product_created'', ProductID = 1, Name = ''Widget'',
                 Timestamp = UTC new_year_10000\<rparr> =
     Inl (External ''json: error calling MarshalJSON for type time.Time: Time.MarshalJSON: year outside of range [0,9999]'')"
    by (simp add: json_Marshal_def ProductEvent_members_def Time_MarshalJSON_UTC Year_10000)
  have p: "published (snd (CreateProduct mock_deps new_year_10000 ''Widget'' (mock_world None))) =
     [\<lparr>EventType = ''product_created'', ProductID = 1, Name = ''Widget'',
       Timestamp = UTC new_year_10000\<rparr>]"
    by (simp add: CreateProduct_def Let_def TrimSpace_Widget mock_deps_def mock_world_def
        EventCreated_def)
  from m p show ?thesis by (simp add: RabbitPublisher_Publish_def)
qed

section \<open>Properties of the consumer\<close>

lemma handleMessage_result:
  "fst (handleMessage m lg) = None \<longleftrightarrow> fst (json_Unmarshal (Body m) zero_ProductEvent) = None"
  by (simp add: handleMessage_def split: prod.splits option.splits)

lemma Listen_loop_step:
  "Listen_loop (Msgs_Recv m # rest) w =
     Listen_loop rest
       (w\<lparr>clogs := snd (handleMessage m (clogs w)) @
                    (case fst (handleMessage m (clogs w)) of
                       None \<Rightarrow> []
                     | Some e \<Rightarrow> [Log LevelError ''handle message failed'' [(''error'', AError e)]]),
          calls := calls w @ [acknowledgement m]\<rparr>)"
proof (cases "handleMessage m (clogs w)")
  case (Pair r lg)
  then have "(r = None) = (fst (json_Unmarshal (Body m) zero_ProductEvent) = None)"
    using handleMessage_result [of m "clogs w"] by simp
  with Pair show ?thesis by (cases r) (auto simp: acknowledgement_def)
qed

lemma Listen_loop_calls:
  "calls (snd (Listen_loop sched w)) = calls w @ map acknowledgement (received sched)"
proof (induction sched arbitrary: w)
  case Nil
  then show ?case by simp
next
  case (Cons c sched)
  show ?case
  proof (cases c)
    case (Msgs_Recv m)
    then show ?thesis by (simp add: Listen_loop_step Cons.IH del: Listen_loop.simps(4))
  qed simp_all
qed

lemma scenario_ok:
  "json_Unmarshal scenario_body zero_ProductEvent =
   (None, \<lparr>EventType = ''product_created'', ProductID = 7, Name = ''Widget'',
           Timestamp = new_year_2026\<rparr>)"
  by code_simp

lemma truncated_fails: "json_parse truncated_body = None"
  by code_simp

lemma truncated_unmarshal:
  "fst (json_Unmarshal truncated_body zero_ProductEvent) = Some (External ''invalid JSON syntax'')"
  by (simp add: json_Unmarshal_def truncated_fails)






text \<open>
  C4. The channel calls of a run of \<open>Listen\<close> are the \<open>Consume\<close> call and then, for each
  delivery received before the loop returns and in the order of receipt, exactly one call:
  \<open>Ack(false)\<close> when \<open>handleMessage\<close> succeeds, \<open>Nack(false, true)\<close> when it fails. A
  failure does not end the loop: the deliveries after it are handled the same way.
\<close>

theorem one_acknowledgement_per_message:
  "calls (snd (Listen queue None sched w)) =
     calls w @ Consume_call queue consumerTag False False False False #
       map (\<lambda>m. if fst (handleMessage m []) = None
                 then Ack_call (DeliveryTag m) False
                 else Nack_call (DeliveryTag m) False True) (received sched)"
proof -
  have "acknowledgement = (\<lambda>m. if fst (handleMessage m []) = None
                 then Ack_call (DeliveryTag m) False
                 else Nack_call (DeliveryTag m) False True)"
    by (rule ext) (simp add: acknowledgement_def handleMessage_result)
  then show ?thesis by (simp add: Listen_def Listen_loop_calls)
qed

theorem one_acknowledgement_per_message_witness:
  "calls (snd (Listen EventsQueue None
      [Msgs_Recv \<lparr>DeliveryTag = 1, Body = scenario_body\<rparr>,
       Msgs_Recv \<lparr>DeliveryTag = 2, Body = truncated_body\<rparr>,
       Msgs_Recv \<lparr>DeliveryTag = 3, Body = scenario_body\<rparr>,
       Ctx_Done,
       Msgs_Recv \<lparr>DeliveryTag = 4, Body = scenario_body\<rparr>]
      \<lparr>clogs = [], calls = []\<rparr>)) =
   [Consume_call ''products.events'' ''notifications-service'' False False False False,
    Ack_call 1 False, Nack_call 2 False True, Ack_call 3 False]"
  using one_acknowledgement_per_message [of EventsQueue
      "[Msgs_Recv \<lparr>DeliveryTag = 1, Body = scenario_body\<rparr>,
       Msgs_Recv \<lparr>DeliveryTag = 2, Body = truncated_body\<rparr>,
       Msgs_Recv \<lparr>DeliveryTag = 3, Body = scenario_body\<rparr>,
       Ctx_Done,
       Msgs_Recv \<lparr>DeliveryTag = 4, Body = scenario_body\<rparr>]" "\<lparr>clogs = [], calls = []\<rparr>"]
  by (simp add: handleMessage_result scenario_ok truncated_unmarshal
      EventsQueue_def consumerTag_def)

lemma Listen_loop_result:
  "fst (Listen_loop sched w) = (if list_ex is_stop sched then Returned None else Waiting)"
proof (induction sched arbitrary: w)
  case Nil
  then show ?case by simp
next
  case (Cons c sched)
  show ?case
  proof (cases c)
    case (Msgs_Recv m)
    then show ?thesis
      by (simp add: Listen_loop_step Cons.IH is_stop_def del: Listen_loop.simps(4))
  qed (simp_all add: is_stop_def)
qed

text \<open>
  C5. \<open>Listen\<close> returns the wrapped error when the initial \<open>Consume\<close> fails. Otherwise it
  returns no error as soon as a \<open>select\<close> finds the context done or the delivery channel
  closed, and until then it has not returned. So it returns an error if and only if
  \<open>Consume\<close> fails.
\<close>

theorem Listen_returns:
  "fst (Listen queue consume_err sched w) =
     (case consume_err of
        Some e \<Rightarrow> Returned (Some (Wrapf (''consume queue '' @ quoted queue) e))
      | None \<Rightarrow> if list_ex is_stop sched then Returned None else Waiting) \<and>
   ((\<exists>e. fst (Listen queue consume_err sched w) = Returned (Some e)) \<longleftrightarrow> consume_err \<noteq> None)"
  by (cases consume_err) (simp_all add: Listen_def Let_def Listen_loop_result)

theorem Listen_returns_witness:
  "fst (Listen EventsQueue None
      [Msgs_Recv \<lparr>DeliveryTag = 1, Body = scenario_body\<rparr>, Ctx_Done] \<lparr>clogs = [], calls = []\<rparr>) =
     Returned None \<and>
   fst (Listen EventsQueue None
      [Msgs_Recv \<lparr>DeliveryTag = 1, Body = truncated_body\<rparr>, Msgs_Closed] \<lparr>clogs = [], calls = []\<rparr>) =
     Returned None \<and>
   fst (Listen EventsQueue None
      [Msgs_Recv \<lparr>DeliveryTag = 1, Body = scenario_body\<rparr>] \<lparr>clogs = [], calls = []\<rparr>) = Waiting \<and>
   fst (Listen EventsQueue (Some (External ''channel/connection is not open'')) []
      \<lparr>clogs = [], calls = []\<rparr>) =
     Returned (Some (Wrapf (''consume queue '' @ quoted ''products.events'')
       (External ''channel/connection is not open'')))"
  using Listen_returns [of EventsQueue None
      "[Msgs_Recv \<lparr>DeliveryTag = 1, Body = scenario_body\<rparr>, Ctx_Done]" "\<lparr>clogs = [], calls = []\<rparr>"]
    Listen_returns [of EventsQueue None
      "[Msgs_Recv \<lparr>DeliveryTag = 1, Body = truncated_body\<rparr>, Msgs_Closed]" "\<lparr>clogs = [], calls = []\<rparr>"]
    Listen_returns [of EventsQueue None
      "[Msgs_Recv \<lparr>DeliveryTag = 1, Body = scenario_body\<rparr>]" "\<lparr>clogs = [], calls = []\<rparr>"]
    Listen_returns [of EventsQueue "Some (External ''channel/connection is not open'')" "[]"
      "\<lparr>clogs = [], calls = []\<rparr>"]
  by (simp add: is_stop_def EventsQueue_def)









end
